theory Spec2Isabelle
  imports Main
begin

section \<open>Values, objects and the store\<close>

text \<open>
  ReactFiber.js is JavaScript with Flow annotations; the annotations are erased before the
  code runs, so a fiber is an ordinary object: a finite map from property names to values.
  Fibers reference each other (\<open>alternate\<close>, \<open>child\<close>, ...) and are mutated in place, so
  objects live in an explicit store and a value of object type is the address of its cell.

  Only what the module observes of a value is represented: its \<open>typeof\<close>, its truthiness,
  and, for objects, their properties. Numbers are the integers and NaN (the module never
  computes with a number).
\<close>

type_synonym addr = nat

datatype jsval =
    JUndefined
  | JNull
  | JBool bool
  | JNum int
  | JNaN
  | JStr string
  | JSymbol nat
  | JObj addr

text \<open>
  An object is its property map, read through the prototype chain (a property the object
  inherits is in the map as well), and the flag that says whether the object can be called:
  a function is an object whose \<open>typeof\<close> is \<open>function\<close>. All properties are plain
  data properties. \<open>readonly\<close> holds the names of the properties in the map that cannot
  be assigned (a property that is not writable, or one that an object which is not
  extensible only inherits), and \<open>extensible\<close> says whether a property can be added:
  \<open>Object.freeze\<close> makes every property read-only and the object not extensible,
  \<open>Object.preventExtensions\<close> and \<open>Object.seal\<close> only the latter.
\<close>

record obj =
  props :: "string \<rightharpoonup> jsval"
  callable :: bool
  readonly :: "string set"
  extensible :: bool

definition plainObj :: "(string \<rightharpoonup> jsval) \<Rightarrow> obj" where
  \<comment> \<open>what an object literal creates: writable properties, extensible, not callable\<close>
  "plainObj ps = \<lparr>props = ps, callable = False, readonly = {}, extensible = True\<rparr>"

definition functionObj :: "(string \<rightharpoonup> jsval) \<Rightarrow> obj" where
  "functionObj ps = \<lparr>props = ps, callable = True, readonly = {}, extensible = True\<rparr>"

definition frozenObj :: "(string \<rightharpoonup> jsval) \<Rightarrow> obj" where
  \<comment> \<open>\<open>Object.freeze({k1: v1, ...})\<close>\<close>
  "frozenObj ps = \<lparr>props = ps, callable = False, readonly = dom ps, extensible = False\<rparr>"

text \<open>
  The store maps every address to a cell; the addresses below \<open>nextAddr\<close> hold the objects
  created so far, and \<open>nextAddr\<close> is where the next object literal is placed.
\<close>

record heap =
  objs :: "addr \<Rightarrow> obj"
  nextAddr :: addr

definition getProp :: "heap \<Rightarrow> addr \<Rightarrow> string \<Rightarrow> jsval" where
  \<comment> \<open>\<open>o.k\<close>: a property that is absent reads as \<open>undefined\<close>\<close>
  "getProp h a k = (case props (objs h a) k of None \<Rightarrow> JUndefined | Some v \<Rightarrow> v)"

definition setProp :: "heap \<Rightarrow> addr \<Rightarrow> string \<Rightarrow> jsval \<Rightarrow> heap" where
  \<comment> \<open>the write that \<open>o.k = v\<close> makes when it is allowed\<close>
  "setProp h a k v =
     h\<lparr>objs := (objs h)(a := (objs h a)\<lparr>props := (props (objs h a))(k \<mapsto> v)\<rparr>)\<rparr>"

definition newObject :: "heap \<Rightarrow> (string \<rightharpoonup> jsval) \<Rightarrow> addr \<times> heap" where
  \<comment> \<open>an object literal \<open>{k1: v1, ...}\<close>: a new cell, which no earlier value references\<close>
  "newObject h ps =
     (nextAddr h,
      h\<lparr>objs := (objs h)(nextAddr h := plainObj ps),
        nextAddr := Suc (nextAddr h)\<rparr>)"

definition getValueProp :: "heap \<Rightarrow> jsval \<Rightarrow> string \<Rightarrow> jsval" where
  \<comment> \<open>\<open>v.k\<close> for a value \<open>v\<close> that is neither \<open>null\<close> nor \<open>undefined\<close>: a primitive is read
      through its wrapper's prototype, which defines none of this module's property names\<close>
  "getValueProp h v k = (case v of JObj a \<Rightarrow> getProp h a k | _ \<Rightarrow> JUndefined)"

fun toBoolean :: "jsval \<Rightarrow> bool" where
  \<comment> \<open>truthiness, as \<open>if (v)\<close>, \<open>v && w\<close> and \<open>!!v\<close> test it\<close>
  "toBoolean JUndefined = False"
| "toBoolean JNull = False"
| "toBoolean (JBool b) = b"
| "toBoolean (JNum n) = (n \<noteq> 0)"
| "toBoolean JNaN = False"
| "toBoolean (JStr s) = (s \<noteq> [])"
| "toBoolean (JSymbol s) = True"
| "toBoolean (JObj a) = True"

fun typeof :: "heap \<Rightarrow> jsval \<Rightarrow> string" where
  "typeof h JUndefined = ''undefined''"
| "typeof h JNull = ''object''"
| "typeof h (JBool b) = ''boolean''"
| "typeof h (JNum n) = ''number''"
| "typeof h JNaN = ''number''"
| "typeof h (JStr s) = ''string''"
| "typeof h (JSymbol s) = ''symbol''"
| "typeof h (JObj a) = (if callable (objs h a) then ''function'' else ''object'')"

text \<open>
  What a function of the module throws: \<open>new Error(message)\<close>, and the \<open>TypeError\<close> that
  strict mode (the file starts with \<open>'use strict'\<close>) raises when an assignment is
  refused: the target is a primitive value, the property is read-only, or the property is
  absent and the object is not extensible.
\<close>

datatype error = Error string | TypeError

definition canAssign :: "obj \<Rightarrow> string \<Rightarrow> bool" where
  "canAssign ob k \<longleftrightarrow> k \<notin> readonly ob \<and> (props ob k \<noteq> None \<or> extensible ob)"

text \<open>
  A run of assignment statements \<open>o.k = expr\<close>, each given by the object, the property
  and the expression as a function of the store it is evaluated in. The first assignment
  that is refused throws, and the store at the throw keeps the writes made before it.
\<close>

fun assigns :: "heap \<Rightarrow> (addr \<times> string \<times> (heap \<Rightarrow> jsval)) list \<Rightarrow> error \<times> heap + heap" where
  "assigns h [] = Inr h"
| "assigns h ((a, k, v) # ws) =
     (if canAssign (objs h a) k then assigns (setProp h a k (v h)) ws
      else Inl (TypeError, h))"


section \<open>The required modules\<close>

text \<open>
  \<open>ReactTypeOfWork\<close> and \<open>ReactPriorityLevel\<close> are required by ReactFiber.js and are not
  part of the sources at hand. The six tags and \<open>NoWork\<close> that the file destructures from
  them are parameters of the model: every function below takes them as its first argument.
\<close>

record env =
  IndeterminateComponent :: jsval
  ClassComponent :: jsval
  HostContainer :: jsval
  HostComponent :: jsval
  CoroutineComponent :: jsval
  YieldComponent :: jsval
  NoWork :: jsval


section \<open>ReactFiber.js\<close>

text \<open>
  Each function takes the store and returns the store it leaves, with its result. An
  argument that the Flow signature types as an object (\<open>fiber\<close>, \<open>element\<close>,
  \<open>coroutine\<close>, \<open>yieldNode\<close>) is the address of that object; every other argument, and
  everything read from a property, is a value. A function that can throw returns, on the
  left, the error with the store at the throw. In \<open>createFiberFromElementType\<close>,
  \<open>createFiberFromCoroutine\<close> and \<open>createFiberFromYield\<close> every assignment goes to the
  fiber that \<open>createFiber\<close> has just returned, which is extensible and has writable
  properties only; these are written as plain writes.
\<close>

definition createFiber :: "env \<Rightarrow> heap \<Rightarrow> jsval \<Rightarrow> jsval \<Rightarrow> addr \<times> heap" where
  "createFiber e h tag key =
     newObject h
       [''tag'' \<mapsto> tag,
        ''key'' \<mapsto> key,
        ''type'' \<mapsto> JNull,
        ''stateNode'' \<mapsto> JNull,
        ''return'' \<mapsto> JNull,
        ''child'' \<mapsto> JNull,
        ''sibling'' \<mapsto> JNull,
        ''ref'' \<mapsto> JNull,
        ''pendingProps'' \<mapsto> JNull,
        ''memoizedProps'' \<mapsto> JNull,
        ''output'' \<mapsto> JNull,
        ''nextEffect'' \<mapsto> JNull,
        ''firstEffect'' \<mapsto> JNull,
        ''lastEffect'' \<mapsto> JNull,
        ''pendingWorkPriority'' \<mapsto> NoWork e,
        ''childInProgress'' \<mapsto> JNull,
        ''alternate'' \<mapsto> JNull]"

definition shouldConstruct :: "heap \<Rightarrow> jsval \<Rightarrow> bool" where
  \<comment> \<open>\<open>!!(Component.prototype && Component.prototype.isReactComponent)\<close>\<close>
  "shouldConstruct h Component =
     (let prototype = getValueProp h Component ''prototype''
      in toBoolean (if toBoolean prototype
                    then getValueProp h prototype ''isReactComponent''
                    else prototype))"

definition cloneFiber :: "env \<Rightarrow> heap \<Rightarrow> addr \<Rightarrow> jsval \<Rightarrow> error \<times> heap + addr \<times> heap" where
  "cloneFiber e h fiber priorityLevel =
     (let alt = getProp h fiber ''alternate'' in
      if toBoolean alt then
        (case alt of
           JObj a \<Rightarrow>
             (case assigns h
                     [(a, ''stateNode'', \<lambda>h. getProp h fiber ''stateNode''),
                      (a, ''child'', \<lambda>h. getProp h fiber ''child''),
                      (a, ''childInProgress'', \<lambda>h. getProp h fiber ''childInProgress''),
                      (a, ''sibling'', \<lambda>h. getProp h fiber ''sibling''),
                      (a, ''ref'', \<lambda>h. getProp h a ''ref''),
                      (a, ''pendingProps'', \<lambda>h. getProp h fiber ''pendingProps''),
                      (a, ''pendingWorkPriority'', \<lambda>h. priorityLevel),
                      (a, ''nextEffect'', \<lambda>h. JNull),
                      (a, ''firstEffect'', \<lambda>h. JNull),
                      (a, ''lastEffect'', \<lambda>h. JNull)] of
                Inl err \<Rightarrow> Inl err
              | Inr h \<Rightarrow> Inr (a, h))
         | _ \<Rightarrow> \<comment> \<open>a truthy primitive: the first assignment throws\<close>
             Inl (TypeError, h))
      else
        let (a, h) = createFiber e h (getProp h fiber ''tag'') (getProp h fiber ''key'')
        in (case assigns h
                   [(a, ''type'', \<lambda>h. getProp h fiber ''type''),
                    (a, ''stateNode'', \<lambda>h. getProp h fiber ''stateNode''),
                    (a, ''child'', \<lambda>h. getProp h fiber ''child''),
                    (a, ''childInProgress'', \<lambda>h. getProp h fiber ''childInProgress''),
                    (a, ''sibling'', \<lambda>h. getProp h fiber ''sibling''),
                    (a, ''ref'', \<lambda>h. getProp h a ''ref''),
                    (a, ''pendingProps'', \<lambda>h. getProp h fiber ''pendingProps''),
                    (a, ''pendingWorkPriority'', \<lambda>h. priorityLevel),
                    (a, ''alternate'', \<lambda>h. JObj fiber),
                    (fiber, ''alternate'', \<lambda>h. JObj a)] of
              Inl err \<Rightarrow> Inl err
            | Inr h \<Rightarrow> Inr (a, h)))"

definition createHostContainerFiber :: "env \<Rightarrow> heap \<Rightarrow> addr \<times> heap" where
  "createHostContainerFiber e h = createFiber e h (HostContainer e) JNull"

definition createFiberFromElementType ::
  "env \<Rightarrow> heap \<Rightarrow> jsval \<Rightarrow> jsval \<Rightarrow> error \<times> heap + addr \<times> heap" where
  "createFiberFromElementType e h type key =
     (if typeof h type = ''function'' then
        let (fiber, h) = (if shouldConstruct h type
                          then createFiber e h (ClassComponent e) key
                          else createFiber e h (IndeterminateComponent e) key);
            h = setProp h fiber ''type'' type
        in Inr (fiber, h)
      else if typeof h type = ''string'' then
        let (fiber, h) = createFiber e h (HostComponent e) key;
            h = setProp h fiber ''type'' type
        in Inr (fiber, h)
      else if typeof h type = ''object'' \<and> type \<noteq> JNull then
        \<comment> \<open>\<open>fiber = type\<close>: only an object passes the test, and the result is its address\<close>
        (case type of JObj fiber \<Rightarrow> Inr (fiber, h) | _ \<Rightarrow> Inl (TypeError, h))
      else
        Inl (Error (''Unknown component type: '' @ typeof h type), h))"

definition createFiberFromElement ::
  "env \<Rightarrow> heap \<Rightarrow> addr \<Rightarrow> jsval \<Rightarrow> error \<times> heap + addr \<times> heap" where
  "createFiberFromElement e h element priorityLevel =
     (case createFiberFromElementType e h (getProp h element ''type'')
                                         (getProp h element ''key'') of
        Inl err \<Rightarrow> Inl err
      | Inr (fiber, h) \<Rightarrow>
          (case assigns h
                  [(fiber, ''pendingProps'', \<lambda>h. getProp h element ''props''),
                   (fiber, ''pendingWorkPriority'', \<lambda>h. priorityLevel)] of
             Inl err \<Rightarrow> Inl err
           | Inr h \<Rightarrow> Inr (fiber, h)))"

definition createFiberFromCoroutine :: "env \<Rightarrow> heap \<Rightarrow> addr \<Rightarrow> jsval \<Rightarrow> addr \<times> heap" where
  "createFiberFromCoroutine e h coroutine priorityLevel =
     (let (fiber, h) = createFiber e h (CoroutineComponent e) (getProp h coroutine ''key'');
          h = setProp h fiber ''type'' (getProp h coroutine ''handler'');
          h = setProp h fiber ''pendingProps'' (JObj coroutine);
          h = setProp h fiber ''pendingWorkPriority'' priorityLevel
      in (fiber, h))"

definition createFiberFromYield :: "env \<Rightarrow> heap \<Rightarrow> addr \<Rightarrow> jsval \<Rightarrow> addr \<times> heap" where
  "createFiberFromYield e h yieldNode priorityLevel =
     (let (fiber, h) = createFiber e h (YieldComponent e) (getProp h yieldNode ''key'');
          (empty, h) = newObject h Map.empty;
          h = setProp h fiber ''pendingProps'' (JObj empty)
      in (fiber, h))"


section \<open>Callers and well-formed inputs\<close>

text \<open>
  A caller that clones several times: \<open>cloneFiber\<close> is called once for each pair of a
  fiber and a priority, in order, on the store the previous call left; the alternates
  returned are collected. The first call that throws ends the sequence.
\<close>

fun cloneFibers ::
  "env \<Rightarrow> heap \<Rightarrow> (addr \<times> jsval) list \<Rightarrow> error \<times> heap + addr list \<times> heap" where
  "cloneFibers e h [] = Inr ([], h)"
| "cloneFibers e h ((fiber, priorityLevel) # calls) =
     (case cloneFiber e h fiber priorityLevel of
        Inl err \<Rightarrow> Inl err
      | Inr (alt, h') \<Rightarrow>
          (case cloneFibers e h' calls of
             Inl err \<Rightarrow> Inl err
           | Inr (alts, h'') \<Rightarrow> Inr (alt # alts, h'')))"

text \<open>
  The Flow type of a fiber declares \<open>alternate: ?Fiber\<close>: the field holds an object, or
  \<open>null\<close> or \<open>undefined\<close>. The first predicate asks no more than \<open>cloneFiber\<close> needs of
  it (an object, or any falsy value); the second adds that the alternate, when there is
  one, points back.
\<close>

definition alternateIsObjectOrFalsy :: "heap \<Rightarrow> addr \<Rightarrow> bool" where
  "alternateIsObjectOrFalsy h fiber =
     (case getProp h fiber ''alternate'' of JObj a \<Rightarrow> True | v \<Rightarrow> \<not> toBoolean v)"

text \<open>
  The fields that the refresh branch of \<open>cloneFiber\<close> assigns on the alternate, and what
  a clone needs in order not to throw there: the alternate accepts those assignments, or,
  when there is no alternate, the fiber accepts the assignment of its alternate field.
\<close>

definition refreshFields :: "string list" where
  "refreshFields =
     [''stateNode'', ''child'', ''childInProgress'', ''sibling'', ''ref'', ''pendingProps'',
      ''pendingWorkPriority'', ''nextEffect'', ''firstEffect'', ''lastEffect'']"

definition cloneWritesAllowed :: "heap \<Rightarrow> addr \<Rightarrow> bool" where
  "cloneWritesAllowed h fiber =
     (case getProp h fiber ''alternate'' of
        JObj a \<Rightarrow> list_all (canAssign (objs h a)) refreshFields
      | _ \<Rightarrow> canAssign (objs h fiber) ''alternate'')"

definition pairingSymmetric :: "heap \<Rightarrow> addr \<Rightarrow> bool" where
  "pairingSymmetric h fiber =
     (case getProp h fiber ''alternate'' of
        JObj a \<Rightarrow> getProp h a ''alternate'' = JObj fiber
      | v \<Rightarrow> \<not> toBoolean v)"




text \<open>
  The fields of the Flow type \<open>Fiber\<close> (\<open>Instance\<close> and its extension), which are the
  fields of the object literal in \<open>createFiber\<close>. A value is a node when it is an object
  that has them all.
\<close>

definition fiberFields :: "string list" where
  "fiberFields =
     [''tag'', ''key'', ''type'', ''stateNode'', ''return'', ''child'', ''sibling'', ''ref'',
      ''pendingProps'', ''memoizedProps'', ''output'', ''nextEffect'', ''firstEffect'',
      ''lastEffect'', ''pendingWorkPriority'', ''alternate'', ''childInProgress'']"

definition isFiber :: "heap \<Rightarrow> jsval \<Rightarrow> bool" where
  "isFiber h v =
     (case v of
        JObj a \<Rightarrow> list_all (\<lambda>k. props (objs h a) k \<noteq> None) fiberFields
      | _ \<Rightarrow> False)"

definition returnedProp ::
  "string \<Rightarrow> error \<times> heap + addr \<times> heap \<Rightarrow> error + addr \<times> jsval" where
  \<comment> \<open>the fiber a call returned, with the value of one of its properties after the call\<close>
  "returnedProp k r =
     (case r of
        Inl (err, h) \<Rightarrow> Inl err
      | Inr (fiber, h) \<Rightarrow> Inr (fiber, getProp h fiber k))"



section \<open>Example stores\<close>

definition exampleEnv :: env where
  "exampleEnv =
     \<lparr>IndeterminateComponent = JNum 0, ClassComponent = JNum 1, HostContainer = JNum 2,
      HostComponent = JNum 3, CoroutineComponent = JNum 4, YieldComponent = JNum 5,
      NoWork = JNum 0\<rparr>"

text \<open>
  A host fiber (object 0) and its alternate (object 1), which still carries the effect
  list of the previous generation. Object 2 is the instance, object 3 the ref callback,
  object 4 the props.
\<close>

definition pairedHeap :: heap where
  "pairedHeap =
     \<lparr>objs = (\<lambda>_. plainObj Map.empty)
        (0 := plainObj
                 [''tag'' \<mapsto> JNum 3, ''key'' \<mapsto> JStr ''a'', ''type'' \<mapsto> JStr ''span'',
                  ''stateNode'' \<mapsto> JObj 2, ''return'' \<mapsto> JNull, ''child'' \<mapsto> JNull,
                  ''sibling'' \<mapsto> JNull, ''ref'' \<mapsto> JObj 3, ''pendingProps'' \<mapsto> JObj 4,
                  ''memoizedProps'' \<mapsto> JNull, ''output'' \<mapsto> JNull,
                  ''nextEffect'' \<mapsto> JNull, ''firstEffect'' \<mapsto> JNull,
                  ''lastEffect'' \<mapsto> JNull, ''pendingWorkPriority'' \<mapsto> JNum 0,
                  ''childInProgress'' \<mapsto> JNull, ''alternate'' \<mapsto> JObj 1],
         1 := plainObj
                 [''tag'' \<mapsto> JNum 3, ''key'' \<mapsto> JStr ''a'', ''type'' \<mapsto> JStr ''span'',
                  ''stateNode'' \<mapsto> JNull, ''return'' \<mapsto> JNull, ''child'' \<mapsto> JNull,
                  ''sibling'' \<mapsto> JNull, ''ref'' \<mapsto> JNull, ''pendingProps'' \<mapsto> JNull,
                  ''memoizedProps'' \<mapsto> JNull, ''output'' \<mapsto> JNull,
                  ''nextEffect'' \<mapsto> JObj 0, ''firstEffect'' \<mapsto> JObj 0,
                  ''lastEffect'' \<mapsto> JObj 0, ''pendingWorkPriority'' \<mapsto> JNum 0,
                  ''childInProgress'' \<mapsto> JNull, ''alternate'' \<mapsto> JObj 0],
         3 := functionObj Map.empty),
      nextAddr = 5\<rparr>"

text \<open>
  Five element descriptions: of a class component (object 0), of a plain function (1), of
  the host tag \<open>div\<close> (2), of the number 42 (3) and of an object that is no node (4).
  Object 5 is the class, whose prototype (6) has \<open>isReactComponent\<close>; object 7 is the
  plain function, with the empty prototype (8); object 9 is the props.
\<close>

definition elementHeap :: heap where
  "elementHeap =
     \<lparr>objs = (\<lambda>_. plainObj Map.empty)
        (0 := plainObj [''type'' \<mapsto> JObj 5, ''key'' \<mapsto> JNull, ''props'' \<mapsto> JObj 9],
         1 := plainObj [''type'' \<mapsto> JObj 7, ''key'' \<mapsto> JNull, ''props'' \<mapsto> JObj 9],
         2 := plainObj [''type'' \<mapsto> JStr ''div'', ''key'' \<mapsto> JStr ''a'', ''props'' \<mapsto> JObj 9],
         3 := plainObj [''type'' \<mapsto> JNum 42, ''key'' \<mapsto> JNull, ''props'' \<mapsto> JObj 9],
         4 := plainObj [''type'' \<mapsto> JObj 8, ''key'' \<mapsto> JNull, ''props'' \<mapsto> JObj 9],
         5 := functionObj [''prototype'' \<mapsto> JObj 6],
         6 := plainObj [''isReactComponent'' \<mapsto> JBool True],
         7 := functionObj [''prototype'' \<mapsto> JObj 8],
         9 := plainObj [''x'' \<mapsto> JNum 1]),
      nextAddr = 10\<rparr>"

text \<open>
  An element (object 0) whose type is a frozen object (1), and one (object 3) whose type
  (4) is sealed without a pendingWorkPriority; object 2 is the props.
\<close>

definition frozenHeap :: heap where
  "frozenHeap =
     \<lparr>objs = (\<lambda>_. plainObj Map.empty)
        (0 := plainObj [''type'' \<mapsto> JObj 1, ''key'' \<mapsto> JNull, ''props'' \<mapsto> JObj 2],
         1 := frozenObj [''key'' \<mapsto> JNull, ''pendingProps'' \<mapsto> JNull],
         2 := plainObj [''x'' \<mapsto> JNum 1],
         3 := plainObj [''type'' \<mapsto> JObj 4, ''key'' \<mapsto> JNull, ''props'' \<mapsto> JObj 2],
         4 := (plainObj [''pendingProps'' \<mapsto> JNull])\<lparr>extensible := False\<rparr>),
      nextAddr = 5\<rparr>"





section \<open>Reading and writing the store\<close>

lemma getProp_setProp:
  "getProp (setProp h a k v) a' k' = (if a' = a \<and> k' = k then v else getProp h a' k')"
  by (simp add: getProp_def setProp_def)

lemma props_setProp:
  "props (objs (setProp h a k v) a') k' =
     (if a' = a \<and> k' = k then Some v else props (objs h a') k')"
  by (simp add: setProp_def)

lemma nextAddr_setProp: "nextAddr (setProp h a k v) = nextAddr h"
  by (simp add: setProp_def)

lemma callable_setProp: "callable (objs (setProp h a k v) a') = callable (objs h a')"
  by (simp add: setProp_def)

lemma typeof_setProp: "typeof (setProp h a k v) x = typeof h x"
  by (cases x) (simp_all add: callable_setProp)

lemma readonly_setProp: "readonly (objs (setProp h a k v) a') = readonly (objs h a')"
  by (simp add: setProp_def)

lemma canAssign_setProp:
  "canAssign (objs (setProp h a k v) a') k' =
     (if a' = a \<and> k' = k then k \<notin> readonly (objs h a) else canAssign (objs h a') k')"
  by (simp add: canAssign_def setProp_def)

lemma canAssign_setProp_mono:
  "canAssign (objs h a') k' \<Longrightarrow> canAssign (objs (setProp h a k v) a') k'"
  by (auto simp add: canAssign_def setProp_def)

lemma objs_setProp_other: "a' \<noteq> a \<Longrightarrow> objs (setProp h a k v) a' = objs h a'"
  by (simp add: setProp_def)



lemma fst_newObject: "fst (newObject h ps) = nextAddr h"
  by (simp add: newObject_def)

lemma getProp_newObject:
  "getProp (snd (newObject h ps)) a k =
     (if a = nextAddr h then (case ps k of None \<Rightarrow> JUndefined | Some v \<Rightarrow> v)
      else getProp h a k)"
  by (simp add: newObject_def getProp_def plainObj_def)


lemma canAssign_newObject:
  "canAssign (objs (snd (newObject h ps)) a) k \<longleftrightarrow> a = nextAddr h \<or> canAssign (objs h a) k"
  by (simp add: newObject_def plainObj_def canAssign_def)


lemma objs_newObject_other: "a \<noteq> nextAddr h \<Longrightarrow> objs (snd (newObject h ps)) a = objs h a"
  by (simp add: newObject_def)

lemma nextAddr_newObject: "nextAddr (snd (newObject h ps)) = Suc (nextAddr h)"
  by (simp add: newObject_def)


section \<open>The two branches of cloneFiber\<close>

text \<open>
  The refresh branch, taken when the fiber has an alternate, and the allocation branch,
  each as the writes it makes to the store when no assignment is refused.
\<close>

lemma cloneFiber_refresh:
  "getProp h fiber ''alternate'' = JObj a \<Longrightarrow>
   list_all (canAssign (objs h a)) refreshFields \<Longrightarrow>
   cloneFiber e h fiber p = Inr (a,
     setProp (setProp (setProp (setProp (setProp (setProp (setProp (setProp (setProp (setProp h
       a ''stateNode'' (getProp h fiber ''stateNode''))
       a ''child'' (getProp h fiber ''child''))
       a ''childInProgress'' (getProp h fiber ''childInProgress''))
       a ''sibling'' (getProp h fiber ''sibling''))
       a ''ref'' (getProp h a ''ref''))
       a ''pendingProps'' (getProp h fiber ''pendingProps''))
       a ''pendingWorkPriority'' p)
       a ''nextEffect'' JNull)
       a ''firstEffect'' JNull)
       a ''lastEffect'' JNull)"
  by (simp add: cloneFiber_def refreshFields_def canAssign_setProp getProp_setProp)

lemma fst_createFiber: "fst (createFiber e h tag key) = nextAddr h"
  by (simp add: createFiber_def fst_newObject)

lemma nextAddr_createFiber: "nextAddr (snd (createFiber e h tag key)) = Suc (nextAddr h)"
  by (simp add: createFiber_def nextAddr_newObject)

lemma canAssign_createFiber:
  "canAssign (objs (snd (createFiber e h tag key)) a) k \<longleftrightarrow>
     a = nextAddr h \<or> canAssign (objs h a) k"
  by (simp add: createFiber_def canAssign_newObject)

lemma canAssign_not_readonly: "canAssign ob k \<Longrightarrow> k \<notin> readonly ob"
  by (simp add: canAssign_def)

lemma assigns_fresh:
  assumes "\<And>k. canAssign (objs h0 a) k" and "canAssign (objs h0 fiber) ''alternate''"
  shows "assigns h0
           [(a, ''type'', \<lambda>h. getProp h fiber ''type''),
            (a, ''stateNode'', \<lambda>h. getProp h fiber ''stateNode''),
            (a, ''child'', \<lambda>h. getProp h fiber ''child''),
            (a, ''childInProgress'', \<lambda>h. getProp h fiber ''childInProgress''),
            (a, ''sibling'', \<lambda>h. getProp h fiber ''sibling''),
            (a, ''ref'', \<lambda>h. getProp h a ''ref''),
            (a, ''pendingProps'', \<lambda>h. getProp h fiber ''pendingProps''),
            (a, ''pendingWorkPriority'', \<lambda>h. p),
            (a, ''alternate'', \<lambda>h. JObj fiber),
            (fiber, ''alternate'', \<lambda>h. JObj a)] =
         Inr (setProp (setProp (setProp (setProp (setProp (setProp (setProp (setProp (setProp
           (setProp h0
             a ''type'' (getProp h0 fiber ''type''))
             a ''stateNode'' (getProp h0 fiber ''stateNode''))
             a ''child'' (getProp h0 fiber ''child''))
             a ''childInProgress'' (getProp h0 fiber ''childInProgress''))
             a ''sibling'' (getProp h0 fiber ''sibling''))
             a ''ref'' (getProp h0 a ''ref''))
             a ''pendingProps'' (getProp h0 fiber ''pendingProps''))
             a ''pendingWorkPriority'' p)
             a ''alternate'' (JObj fiber))
             fiber ''alternate'' (JObj a))"
  using assms(2) canAssign_not_readonly [OF assms(1)]
  by (simp add: canAssign_setProp getProp_setProp readonly_setProp assms(1))

lemma cloneFiber_fresh:
  "\<not> toBoolean (getProp h fiber ''alternate'') \<Longrightarrow>
   canAssign (objs h fiber) ''alternate'' \<Longrightarrow>
   cloneFiber e h fiber p =
     (let a = nextAddr h;
          h0 = snd (createFiber e h (getProp h fiber ''tag'') (getProp h fiber ''key''))
      in Inr (a,
     setProp (setProp (setProp (setProp (setProp (setProp (setProp (setProp (setProp (setProp h0
       a ''type'' (getProp h0 fiber ''type''))
       a ''stateNode'' (getProp h0 fiber ''stateNode''))
       a ''child'' (getProp h0 fiber ''child''))
       a ''childInProgress'' (getProp h0 fiber ''childInProgress''))
       a ''sibling'' (getProp h0 fiber ''sibling''))
       a ''ref'' (getProp h0 a ''ref''))
       a ''pendingProps'' (getProp h0 fiber ''pendingProps''))
       a ''pendingWorkPriority'' p)
       a ''alternate'' (JObj fiber))
       fiber ''alternate'' (JObj a)))"
  by (simp add: cloneFiber_def Let_def split_def fst_createFiber assigns_fresh
        canAssign_createFiber del: assigns.simps)

lemma alternate_cases:
  assumes "alternateIsObjectOrFalsy h n" and "cloneWritesAllowed h n"
  obtains (refresh) a where "getProp h n ''alternate'' = JObj a"
            and "list_all (canAssign (objs h a)) refreshFields"
        | (fresh) "\<not> toBoolean (getProp h n ''alternate'')"
            and "canAssign (objs h n) ''alternate''"
  using assms
  by (auto simp add: alternateIsObjectOrFalsy_def cloneWritesAllowed_def split: jsval.splits)

lemma cloneFiber_returns:
  assumes "alternateIsObjectOrFalsy h n" and "cloneWritesAllowed h n"
  shows "\<exists>a h'. cloneFiber e h n p = Inr (a, h')"
  using assms
proof (cases rule: alternate_cases)
  case (refresh a)
  then show ?thesis by (simp add: cloneFiber_refresh)
next
  case fresh
  then show ?thesis by (simp add: cloneFiber_fresh Let_def)
qed


lemma assigns_Inr:
  "assigns h ws = Inr h' \<Longrightarrow> h' = foldl (\<lambda>h (a, k, v). setProp h a k (v h)) h ws"
  by (induction ws arbitrary: h) (auto split: if_splits)

lemma cloneFiber_Inr_effects:
  assumes "cloneFiber e h n p = Inr (a, h')"
  shows "getProp h' a ''nextEffect'' = JNull \<and>
         getProp h' a ''firstEffect'' = JNull \<and>
         getProp h' a ''lastEffect'' = JNull"
proof (cases "toBoolean (getProp h n ''alternate'')")
  case True
  let ?ws = "[(a, ''stateNode'', \<lambda>h. getProp h n ''stateNode''),
              (a, ''child'', \<lambda>h. getProp h n ''child''),
              (a, ''childInProgress'', \<lambda>h. getProp h n ''childInProgress''),
              (a, ''sibling'', \<lambda>h. getProp h n ''sibling''),
              (a, ''ref'', \<lambda>h. getProp h a ''ref''),
              (a, ''pendingProps'', \<lambda>h. getProp h n ''pendingProps''),
              (a, ''pendingWorkPriority'', \<lambda>h. p),
              (a, ''nextEffect'', \<lambda>h. JNull),
              (a, ''firstEffect'', \<lambda>h. JNull),
              (a, ''lastEffect'', \<lambda>h. JNull)]"
  from True assms have "assigns h ?ws = Inr h'"
    by (auto simp add: cloneFiber_def simp del: assigns.simps split: jsval.splits sum.splits)
  from assigns_Inr [OF this] show ?thesis
    by (simp add: getProp_setProp)
next
  case False
  let ?h0 = "snd (createFiber e h (getProp h n ''tag'') (getProp h n ''key''))"
  let ?ws = "[(a, ''type'', \<lambda>h. getProp h n ''type''),
              (a, ''stateNode'', \<lambda>h. getProp h n ''stateNode''),
              (a, ''child'', \<lambda>h. getProp h n ''child''),
              (a, ''childInProgress'', \<lambda>h. getProp h n ''childInProgress''),
              (a, ''sibling'', \<lambda>h. getProp h n ''sibling''),
              (a, ''ref'', \<lambda>h. getProp h a ''ref''),
              (a, ''pendingProps'', \<lambda>h. getProp h n ''pendingProps''),
              (a, ''pendingWorkPriority'', \<lambda>h. p),
              (a, ''alternate'', \<lambda>h. JObj n),
              (n, ''alternate'', \<lambda>h. JObj a)]"
  from False assms have a: "a = nextAddr h" and "assigns ?h0 ?ws = Inr h'"
    by (auto simp add: cloneFiber_def Let_def split_def fst_createFiber
          simp del: assigns.simps split: sum.splits)
  from assigns_Inr [OF this(2)] show ?thesis
    by (simp add: getProp_setProp a createFiber_def getProp_newObject)
qed

lemma getProp_createFiber_other:
  "a \<noteq> nextAddr h \<Longrightarrow> getProp (snd (createFiber e h tag key)) a k = getProp h a k"
  by (simp add: createFiber_def getProp_newObject)

lemma cloneFiber_refresh_reads:
  assumes "getProp h n ''alternate'' = JObj a"
    and "list_all (canAssign (objs h a)) refreshFields"
  shows "\<exists>h'. cloneFiber e h n p = Inr (a, h') \<and> nextAddr h' = nextAddr h \<and>
           (\<forall>b. getProp h' b ''alternate'' = getProp h b ''alternate'') \<and>
           (\<forall>b. getProp h' b ''stateNode'' =
                  (if b = a then getProp h n ''stateNode'' else getProp h b ''stateNode'')) \<and>
           (\<forall>b. b \<noteq> a \<longrightarrow> objs h' b = objs h b) \<and>
           (\<forall>k. k \<notin> set refreshFields \<longrightarrow> props (objs h' a) k = props (objs h a) k) \<and>
           (\<forall>b k. canAssign (objs h b) k \<longrightarrow> canAssign (objs h' b) k)"
  by (simp add: cloneFiber_refresh [OF assms] nextAddr_setProp getProp_setProp
        objs_setProp_other props_setProp canAssign_setProp_mono refreshFields_def)








lemma cloneFibers_paired:
  assumes "getProp g n ''alternate'' = JObj a" and "getProp g a ''alternate'' = JObj n"
    and "list_all (canAssign (objs g n)) refreshFields"
    and "list_all (canAssign (objs g a)) refreshFields"
    and "list_all (\<lambda>c. fst c = n \<or> fst c = a) calls"
  shows "\<exists>g'. cloneFibers e g calls = Inr (map (\<lambda>c. if fst c = n then a else n) calls, g') \<and>
              nextAddr g' = nextAddr g \<and>
              (\<forall>b. getProp g' b ''alternate'' = getProp g b ''alternate'')"
  using assms
proof (induction calls arbitrary: g)
  case Nil
  then show ?case by simp
next
  case (Cons c calls)
  obtain f q where c: "c = (f, q)" by (cases c)
  let ?r = "if f = n then a else n"
  from Cons.prems c have alt: "getProp g f ''alternate'' = JObj ?r"
    and ok: "list_all (canAssign (objs g ?r)) refreshFields" by auto
  from cloneFiber_refresh_reads [OF alt ok, of e q]
  obtain g1 where 1: "cloneFiber e g f q = Inr (?r, g1)" and 2: "nextAddr g1 = nextAddr g"
    and 3: "\<forall>b. getProp g1 b ''alternate'' = getProp g b ''alternate''"
    and 4: "\<forall>b k. canAssign (objs g b) k \<longrightarrow> canAssign (objs g1 b) k" by blast
  from 3 Cons.prems have l1: "getProp g1 n ''alternate'' = JObj a"
    and l2: "getProp g1 a ''alternate'' = JObj n" by simp_all
  from 4 Cons.prems(3,4) have w1: "list_all (canAssign (objs g1 n)) refreshFields"
    and w2: "list_all (canAssign (objs g1 a)) refreshFields"
    by (simp_all add: list_all_iff)
  from Cons.prems(5) have "list_all (\<lambda>c. fst c = n \<or> fst c = a) calls" by simp
  from Cons.IH [OF l1 l2 w1 w2 this]
  obtain g2 where 5: "cloneFibers e g1 calls = Inr (map (\<lambda>c. if fst c = n then a else n) calls, g2)"
    and 6: "nextAddr g2 = nextAddr g1"
    and 7: "\<forall>b. getProp g2 b ''alternate'' = getProp g1 b ''alternate''" by auto
  show ?case using c 1 2 3 5 6 7 by simp
qed


lemma pairingSymmetric_alternate:
  "pairingSymmetric h n \<Longrightarrow> alternateIsObjectOrFalsy h n"
  by (simp add: pairingSymmetric_def alternateIsObjectOrFalsy_def split: jsval.splits)

lemma cloneFiber_first:
  assumes "alternateIsObjectOrFalsy h n" and "cloneWritesAllowed h n"
  shows "\<exists>a h'. cloneFiber e h n p = Inr (a, h') \<and>
           (case getProp h n ''alternate'' of
              JObj b \<Rightarrow> a = b \<and> nextAddr h' = nextAddr h
            | _ \<Rightarrow> a = nextAddr h \<and> nextAddr h' = Suc (nextAddr h)) \<and>
           getProp h' n ''alternate'' = JObj a \<and>
           getProp h' a ''alternate'' =
             (case getProp h n ''alternate'' of
                JObj b \<Rightarrow> getProp h b ''alternate''
              | _ \<Rightarrow> if a = n then JObj a else JObj n) \<and>
           (\<forall>x. x \<noteq> n \<longrightarrow> x \<noteq> a \<longrightarrow> getProp h' x ''alternate'' = getProp h x ''alternate'')"
  using assms
proof (cases rule: alternate_cases)
  case (refresh a)
  from cloneFiber_refresh_reads [OF refresh, of e p] refresh(1)
  show ?thesis by auto
next
  case fresh
  have *: "(case getProp h n ''alternate'' of JObj b \<Rightarrow> P b | _ \<Rightarrow> Q) = Q" for P and Q :: 'a
    using fresh(1) by (cases "getProp h n ''alternate''") simp_all
  from fresh show ?thesis
    by (simp add: * cloneFiber_fresh Let_def getProp_setProp nextAddr_setProp
          nextAddr_createFiber getProp_createFiber_other)
qed

lemma createFiber_new_reads:
  "getProp (snd (createFiber e h tag key)) (nextAddr h) ''tag'' = tag"
  "getProp (snd (createFiber e h tag key)) (nextAddr h) ''key'' = key"
  by (simp_all add: createFiber_def getProp_newObject)

section \<open>The branches of createFiberFromElementType\<close>

lemma typeof_object:
  "typeof h v = ''object'' \<and> v \<noteq> JNull \<longleftrightarrow> (\<exists>a. v = JObj a \<and> \<not> callable (objs h a))"
  by (cases v) simp_all

lemma createFiberFromElementType_function:
  assumes "typeof h type = ''function''"
  shows "createFiberFromElementType e h type key =
           Inr (nextAddr h,
                setProp (snd (createFiber e h (if shouldConstruct h type then ClassComponent e
                                            else IndeterminateComponent e) key))
                  (nextAddr h) ''type'' type)"
  using assms
  by (simp add: createFiberFromElementType_def createFiber_def split_def Let_def fst_newObject)

lemma createFiberFromElementType_string:
  assumes "typeof h type = ''string''"
  shows "createFiberFromElementType e h type key =
           Inr (nextAddr h,
                setProp (snd (createFiber e h (HostComponent e) key)) (nextAddr h) ''type'' type)"
  using assms
  by (simp add: createFiberFromElementType_def createFiber_def split_def Let_def fst_newObject)

lemma createFiberFromElementType_object:
  assumes "\<not> callable (objs h a)"
  shows "createFiberFromElementType e h (JObj a) key = Inr (a, h)"
  using assms by (simp add: createFiberFromElementType_def)

lemma createFiberFromElementType_unknown:
  assumes "typeof h type \<noteq> ''function''" and "typeof h type \<noteq> ''string''"
    and "\<not> (typeof h type = ''object'' \<and> type \<noteq> JNull)"
  shows "createFiberFromElementType e h type key =
           Inl (Error (''Unknown component type: '' @ typeof h type), h)"
  using assms by (auto simp add: createFiberFromElementType_def)

lemma createFiberFromElement_object:
  assumes "getProp h element ''type'' = JObj a" and "\<not> callable (objs h a)"
  shows "createFiberFromElement e h element p =
           (if canAssign (objs h a) ''pendingProps'' then
              if canAssign (objs h a) ''pendingWorkPriority'' then
                Inr (a, setProp (setProp h a ''pendingProps'' (getProp h element ''props''))
                          a ''pendingWorkPriority'' p)
              else Inl (TypeError, setProp h a ''pendingProps'' (getProp h element ''props''))
            else Inl (TypeError, h))"
  using assms
  by (simp add: createFiberFromElement_def createFiberFromElementType_object canAssign_setProp)


section \<open>Reading the example stores\<close>

lemma pairedHeap_reads:
  "nextAddr pairedHeap = 5"
  "getProp pairedHeap 0 ''alternate'' = JObj 1"
  "getProp pairedHeap (Suc 0) ''alternate'' = JObj 0"
  "getProp pairedHeap 0 ''stateNode'' = JObj 2"
  "getProp pairedHeap (Suc 0) ''stateNode'' = JNull"
  "getProp pairedHeap 0 ''ref'' = JObj 3"
  "getProp pairedHeap (Suc 0) ''ref'' = JNull"
  "getProp pairedHeap (Suc 0) ''nextEffect'' = JObj 0"
  "list_all (canAssign (objs pairedHeap 0)) refreshFields"
  "list_all (canAssign (objs pairedHeap (Suc 0))) refreshFields"
  "canAssign (objs pairedHeap 0) ''alternate''"
  "\<not> callable (objs pairedHeap 0)"
  by (simp_all add: pairedHeap_def getProp_def plainObj_def canAssign_def refreshFields_def)

lemma elementHeap_reads:
  "nextAddr elementHeap = 10"
  "getProp elementHeap 0 ''type'' = JObj 5"
  "getProp elementHeap 0 ''key'' = JNull"
  "getProp elementHeap 0 ''props'' = JObj 9"
  "getProp elementHeap (Suc 0) ''type'' = JObj 7"
  "getProp elementHeap (Suc 0) ''key'' = JNull"
  "getProp elementHeap (Suc 0) ''props'' = JObj 9"
  "getProp elementHeap 2 ''type'' = JStr ''div''"
  "getProp elementHeap 2 ''key'' = JStr ''a''"
  "getProp elementHeap 2 ''props'' = JObj 9"
  "getProp elementHeap 3 ''type'' = JNum 42"
  "getProp elementHeap 4 ''type'' = JObj 8"
  "getProp elementHeap 4 ''props'' = JObj 9"
  "getProp elementHeap 5 ''prototype'' = JObj 6"
  "getProp elementHeap 6 ''isReactComponent'' = JBool True"
  "getProp elementHeap 7 ''prototype'' = JObj 8"
  "getProp elementHeap 8 ''isReactComponent'' = JUndefined"
  "callable (objs elementHeap 5)"
  "callable (objs elementHeap 7)"
  "\<not> callable (objs elementHeap 8)"
  "props (objs elementHeap 8) = Map.empty"
  "canAssign (objs elementHeap 8) ''pendingProps''"
  "canAssign (objs elementHeap 8) ''pendingWorkPriority''"
  by (simp_all add: elementHeap_def getProp_def plainObj_def functionObj_def canAssign_def)

lemma frozenHeap_reads:
  "getProp frozenHeap 0 ''type'' = JObj 1"
  "getProp frozenHeap 0 ''props'' = JObj 2"
  "getProp frozenHeap 3 ''type'' = JObj 4"
  "getProp frozenHeap 3 ''props'' = JObj 2"
  "\<not> callable (objs frozenHeap (Suc 0))"
  "\<not> callable (objs frozenHeap 4)"
  "\<not> canAssign (objs frozenHeap (Suc 0)) ''pendingProps''"
  "canAssign (objs frozenHeap 4) ''pendingProps''"
  "\<not> canAssign (objs frozenHeap 4) ''pendingWorkPriority''"
  by (simp_all add: frozenHeap_def getProp_def plainObj_def frozenObj_def canAssign_def)



section \<open>The node factory\<close>

text \<open>
  C9. The root container is a node of kind HostContainer whose key and type are null; and
  a node made by the factory, of any tag and key, has that tag and that key, every
  relational field (return, child, sibling, childInProgress, nextEffect, firstEffect,
  lastEffect, alternate) null, ref, pendingProps, memoizedProps, output and stateNode
  null, and pendingWorkPriority equal to NoWork. The node is a new object: the factory
  changes no object that existed before.
\<close>

theorem createFiber_initial_fields:
  "(case createHostContainerFiber e h of (root, h') \<Rightarrow>
      getProp h' root ''tag'' = HostContainer e \<and>
      getProp h' root ''key'' = JNull \<and>
      getProp h' root ''type'' = JNull) \<and>
   (case createFiber e h tag key of (fiber, h') \<Rightarrow>
      fiber = nextAddr h \<and> nextAddr h' = Suc (nextAddr h) \<and>
      objs h' = (objs h)(fiber := objs h' fiber) \<and>
      getProp h' fiber ''tag'' = tag \<and>
      getProp h' fiber ''key'' = key \<and>
      getProp h' fiber ''type'' = JNull \<and>
      getProp h' fiber ''return'' = JNull \<and>
      getProp h' fiber ''child'' = JNull \<and>
      getProp h' fiber ''sibling'' = JNull \<and>
      getProp h' fiber ''childInProgress'' = JNull \<and>
      getProp h' fiber ''nextEffect'' = JNull \<and>
      getProp h' fiber ''firstEffect'' = JNull \<and>
      getProp h' fiber ''lastEffect'' = JNull \<and>
      getProp h' fiber ''alternate'' = JNull \<and>
      getProp h' fiber ''ref'' = JNull \<and>
      getProp h' fiber ''pendingProps'' = JNull \<and>
      getProp h' fiber ''memoizedProps'' = JNull \<and>
      getProp h' fiber ''output'' = JNull \<and>
      getProp h' fiber ''stateNode'' = JNull \<and>
      getProp h' fiber ''pendingWorkPriority'' = NoWork e)"
  by (simp add: createHostContainerFiber_def createFiber_def newObject_def getProp_def
        plainObj_def)


section \<open>The double-buffer pool\<close>

text \<open>
  C4. For every fiber and every priority, in every store, the fiber that \<open>cloneFiber\<close>
  returns has nextEffect, firstEffect and lastEffect null, whatever they held before and
  whichever branch was taken. And the call does return when the alternate field holds an
  object or a falsy value and none of its assignments is refused.
\<close>

theorem cloneFiber_resets_effects:
  "(alternateIsObjectOrFalsy h n \<and> cloneWritesAllowed h n \<longrightarrow>
      (\<exists>a h'. cloneFiber e h n p = Inr (a, h'))) \<and>
   (\<forall>a h'. cloneFiber e h n p = Inr (a, h') \<longrightarrow>
      getProp h' a ''nextEffect'' = JNull \<and>
      getProp h' a ''firstEffect'' = JNull \<and>
      getProp h' a ''lastEffect'' = JNull)"
proof (intro conjI allI impI)
  assume "alternateIsObjectOrFalsy h n \<and> cloneWritesAllowed h n"
  then show "\<exists>a h'. cloneFiber e h n p = Inr (a, h')"
    by (simp add: cloneFiber_returns)
next
  fix a h'
  assume c: "cloneFiber e h n p = Inr (a, h')"
  from cloneFiber_Inr_effects [OF c]
  show "getProp h' a ''nextEffect'' = JNull" and "getProp h' a ''firstEffect'' = JNull"
    and "getProp h' a ''lastEffect'' = JNull"
    by simp_all
qed

theorem cloneFiber_resets_effects_witness:
  "alternateIsObjectOrFalsy pairedHeap 0 \<and>
   cloneWritesAllowed pairedHeap 0 \<and>
   getProp pairedHeap 1 ''nextEffect'' = JObj 0 \<and>
   (\<exists>a h'. cloneFiber exampleEnv pairedHeap 0 (JNum 2) = Inr (a, h') \<and>
     getProp h' a ''nextEffect'' = JNull \<and>
     getProp h' a ''firstEffect'' = JNull \<and>
     getProp h' a ''lastEffect'' = JNull)"
proof -
  have ok: "alternateIsObjectOrFalsy pairedHeap 0"
    by (simp add: alternateIsObjectOrFalsy_def pairedHeap_reads)
  have wr: "cloneWritesAllowed pairedHeap 0"
    by (simp add: cloneWritesAllowed_def pairedHeap_reads)
  have st: "getProp pairedHeap 1 ''nextEffect'' = JObj 0"
    by (simp add: pairedHeap_reads)
  from cloneFiber_resets_effects [of pairedHeap 0 exampleEnv "JNum 2"] ok wr
  have "\<exists>a h'. cloneFiber exampleEnv pairedHeap 0 (JNum 2) = Inr (a, h') \<and>
     getProp h' a ''nextEffect'' = JNull \<and>
     getProp h' a ''firstEffect'' = JNull \<and>
     getProp h' a ''lastEffect'' = JNull"
    by blast
  with ok wr st show ?thesis by blast
qed

text \<open>
  C1. The claim is that the alternate returned by \<open>cloneFiber\<close> has the ref of the fiber
  cloned. Both branches of the source assign \<open>alt.ref = alt.ref\<close>, so the ref of the fiber
  is never read. For the fiber 0 of \<open>pairedHeap\<close>, whose ref is the callback 3: with its
  alternate 1 in place, the clone keeps the ref that alternate had (null); and without an
  alternate, the new fiber 5 has the null ref the factory gave it.
\<close>

theorem cloneFiber_ref_not_copied:
  "getProp pairedHeap 0 ''ref'' = JObj 3 \<and>
   returnedProp ''ref'' (cloneFiber exampleEnv pairedHeap 0 (JNum 2)) = Inr (1, JNull) \<and>
   returnedProp ''ref''
     (cloneFiber exampleEnv (setProp pairedHeap 0 ''alternate'' JNull) 0 (JNum 2)) =
     Inr (5, JNull)"
proof -
  have alt: "getProp pairedHeap 0 ''alternate'' = JObj (Suc 0)"
    by (simp add: pairedHeap_reads)
  have "returnedProp ''ref'' (cloneFiber exampleEnv pairedHeap 0 (JNum 2)) = Inr (1, JNull)"
    by (simp add: returnedProp_def cloneFiber_refresh [OF alt pairedHeap_reads(10)]
          getProp_setProp pairedHeap_reads)
  moreover have "\<not> toBoolean (getProp (setProp pairedHeap 0 ''alternate'' JNull) 0 ''alternate'')"
    and "canAssign (objs (setProp pairedHeap 0 ''alternate'' JNull) 0) ''alternate''"
    by (simp_all add: getProp_setProp canAssign_setProp_mono pairedHeap_reads)
  then have "returnedProp ''ref''
     (cloneFiber exampleEnv (setProp pairedHeap 0 ''alternate'' JNull) 0 (JNum 2)) =
     Inr (5, JNull)"
    by (simp add: returnedProp_def cloneFiber_fresh Let_def getProp_setProp nextAddr_setProp
          pairedHeap_reads createFiber_def getProp_newObject)
  ultimately show ?thesis by (simp add: pairedHeap_reads)
qed






text \<open>
  C2. When the alternate of \<open>n\<close>, if it has one, points back to \<open>n\<close>, \<open>cloneFiber\<close>
  returns that alternate and allocates nothing, or, if \<open>n\<close> has none, allocates one
  object and returns it. The fiber \<open>a\<close> returned and \<open>n\<close> are each other's alternate, and
  no other object's alternate changes. From then on, in any store in which the two are
  each other's alternate, clones of \<open>n\<close> and of \<open>a\<close>, in any number and order, return the
  other of the two, allocate nothing and change no object's alternate.
\<close>

theorem cloneFiber_pairing_symmetric:
  assumes "pairingSymmetric h n" and "cloneWritesAllowed h n"
  shows "\<exists>a h'. cloneFiber e h n p = Inr (a, h') \<and>
           (case getProp h n ''alternate'' of
              JObj b \<Rightarrow> a = b \<and> nextAddr h' = nextAddr h
            | _ \<Rightarrow> a = nextAddr h \<and> nextAddr h' = Suc (nextAddr h)) \<and>
           getProp h' a ''alternate'' = JObj n \<and>
           getProp h' n ''alternate'' = JObj a \<and>
           (\<forall>x. x \<noteq> n \<longrightarrow> x \<noteq> a \<longrightarrow> getProp h' x ''alternate'' = getProp h x ''alternate'') \<and>
           (\<forall>g calls.
              getProp g n ''alternate'' = JObj a \<and> getProp g a ''alternate'' = JObj n \<and>
              list_all (canAssign (objs g n)) refreshFields \<and>
              list_all (canAssign (objs g a)) refreshFields \<and>
              list_all (\<lambda>c. fst c = n \<or> fst c = a) calls \<longrightarrow>
              (\<exists>g'. cloneFibers e g calls =
                       Inr (map (\<lambda>c. if fst c = n then a else n) calls, g') \<and>
                    nextAddr g' = nextAddr g \<and>
                    (\<forall>x. getProp g' x ''alternate'' = getProp g x ''alternate'')))"
proof -
  from cloneFiber_first [OF pairingSymmetric_alternate [OF assms(1)] assms(2), of e p]
  obtain a h' where 1: "cloneFiber e h n p = Inr (a, h')"
    and 2: "case getProp h n ''alternate'' of
              JObj b \<Rightarrow> a = b \<and> nextAddr h' = nextAddr h
            | _ \<Rightarrow> a = nextAddr h \<and> nextAddr h' = Suc (nextAddr h)"
    and 3: "getProp h' n ''alternate'' = JObj a"
    and 4: "getProp h' a ''alternate'' =
             (case getProp h n ''alternate'' of
                JObj b \<Rightarrow> getProp h b ''alternate''
              | _ \<Rightarrow> if a = n then JObj a else JObj n)"
    and 5: "\<forall>x. x \<noteq> n \<longrightarrow> x \<noteq> a \<longrightarrow> getProp h' x ''alternate'' = getProp h x ''alternate''"
    by blast
  from 4 assms(1) have 6: "getProp h' a ''alternate'' = JObj n"
    by (auto simp add: pairingSymmetric_def split: jsval.splits)
  have 7: "\<exists>g'. cloneFibers e g calls =
                   Inr (map (\<lambda>c. if fst c = n then a else n) calls, g') \<and>
                 nextAddr g' = nextAddr g \<and>
                 (\<forall>x. getProp g' x ''alternate'' = getProp g x ''alternate'')"
    if "getProp g n ''alternate'' = JObj a" and "getProp g a ''alternate'' = JObj n"
      and "list_all (canAssign (objs g n)) refreshFields"
      and "list_all (canAssign (objs g a)) refreshFields"
      and "list_all (\<lambda>c. fst c = n \<or> fst c = a) calls" for g calls
    using that by (rule cloneFibers_paired)
  from 1 2 3 5 6 7 show ?thesis by blast
qed

theorem cloneFiber_pairing_symmetric_witness:
  "pairingSymmetric pairedHeap 0 \<and>
   cloneWritesAllowed pairedHeap 0 \<and>
   (\<exists>h' g'. cloneFiber exampleEnv pairedHeap 0 (JNum 2) = Inr (1, h') \<and>
      nextAddr h' = nextAddr pairedHeap \<and>
      getProp h' 1 ''alternate'' = JObj 0 \<and>
      getProp h' 0 ''alternate'' = JObj 1 \<and>
      cloneFibers exampleEnv pairedHeap [(0, JNum 1), (1, JNum 2), (0, JNum 3)] =
        Inr ([1, 0, 1], g') \<and>
      nextAddr g' = nextAddr pairedHeap)"
proof -
  have ok: "pairingSymmetric pairedHeap 0"
    by (simp add: pairingSymmetric_def pairedHeap_reads)
  have wr: "cloneWritesAllowed pairedHeap 0"
    by (simp add: cloneWritesAllowed_def pairedHeap_reads)
  from cloneFiber_pairing_symmetric [OF ok wr, of exampleEnv "JNum 2"]
  obtain a h' where 1: "cloneFiber exampleEnv pairedHeap 0 (JNum 2) = Inr (a, h')"
    and 2: "case getProp pairedHeap 0 ''alternate'' of
              JObj b \<Rightarrow> a = b \<and> nextAddr h' = nextAddr pairedHeap
            | _ \<Rightarrow> a = nextAddr pairedHeap \<and> nextAddr h' = Suc (nextAddr pairedHeap)"
    and 3: "getProp h' a ''alternate'' = JObj 0"
    and 4: "getProp h' 0 ''alternate'' = JObj a"
    and 5: "\<forall>g calls.
              getProp g 0 ''alternate'' = JObj a \<and> getProp g a ''alternate'' = JObj 0 \<and>
              list_all (canAssign (objs g 0)) refreshFields \<and>
              list_all (canAssign (objs g a)) refreshFields \<and>
              list_all (\<lambda>c. fst c = 0 \<or> fst c = a) calls \<longrightarrow>
              (\<exists>g'. cloneFibers exampleEnv g calls =
                       Inr (map (\<lambda>c. if fst c = 0 then a else 0) calls, g') \<and>
                    nextAddr g' = nextAddr g \<and>
                    (\<forall>x. getProp g' x ''alternate'' = getProp g x ''alternate''))"
    by blast
  from 2 have a: "a = Suc 0" and nx: "nextAddr h' = nextAddr pairedHeap"
    by (simp_all add: pairedHeap_reads)
  from 5 [rule_format, of pairedHeap "[(0, JNum 1), (Suc 0, JNum 2), (0, JNum 3)]"]
  obtain g' where "cloneFibers exampleEnv pairedHeap [(0, JNum 1), (Suc 0, JNum 2), (0, JNum 3)] =
        Inr ([Suc 0, 0, Suc 0], g')"
    and "nextAddr g' = nextAddr pairedHeap"
    by (auto simp add: a pairedHeap_reads)
  with ok wr 1 3 4 a nx show ?thesis by auto
qed





section \<open>The typed constructors\<close>

text \<open>
  C5. For an element (an existing object) whose type is a function or a string,
  \<open>createFiberFromElement\<close> returns a new fiber. Its tag is ClassComponent when the type is
  a function whose \<open>prototype\<close> is truthy and has a truthy \<open>isReactComponent\<close>,
  IndeterminateComponent for any other function, and HostComponent for a string; its type
  is the element's type, its key the element's key, its pendingProps the element's props
  and its pendingWorkPriority the priority passed.
\<close>

theorem createFiberFromElement_resolves_kind:
  assumes "element < nextAddr h"
    and "typeof h (getProp h element ''type'') = ''function'' \<or>
         typeof h (getProp h element ''type'') = ''string''"
  shows "\<exists>h'. createFiberFromElement e h element p = Inr (nextAddr h, h') \<and>
      getProp h' (nextAddr h) ''tag'' =
        (let type = getProp h element ''type'';
             prototype = getValueProp h type ''prototype''
         in if typeof h type = ''function'' then
              if toBoolean prototype \<and> toBoolean (getValueProp h prototype ''isReactComponent'')
              then ClassComponent e
              else IndeterminateComponent e
            else HostComponent e) \<and>
      getProp h' (nextAddr h) ''type'' = getProp h element ''type'' \<and>
      getProp h' (nextAddr h) ''key'' = getProp h element ''key'' \<and>
      getProp h' (nextAddr h) ''pendingProps'' = getProp h element ''props'' \<and>
      getProp h' (nextAddr h) ''pendingWorkPriority'' = p"
proof (cases "typeof h (getProp h element ''type'') = ''function''")
  case True
  have sc: "shouldConstruct h v \<longleftrightarrow>
      toBoolean (getValueProp h v ''prototype'') \<and>
      toBoolean (getValueProp h (getValueProp h v ''prototype'') ''isReactComponent'')" for v
    by (simp add: shouldConstruct_def Let_def)
  from True assms(1) show ?thesis
    by (simp add: createFiberFromElement_def createFiberFromElementType_function
          getProp_setProp canAssign_setProp canAssign_createFiber getProp_createFiber_other
          createFiber_new_reads sc Let_def)
next
  case False
  with assms(2) have s: "typeof h (getProp h element ''type'') = ''string''" by simp
  from s False assms(1) show ?thesis
    by (simp add: createFiberFromElement_def createFiberFromElementType_string
          getProp_setProp canAssign_setProp canAssign_createFiber getProp_createFiber_other
          createFiber_new_reads Let_def)
qed

theorem createFiberFromElement_resolves_kind_witness:
  "(0 < nextAddr elementHeap \<and>
    typeof elementHeap (getProp elementHeap 0 ''type'') = ''function'' \<and>
    (\<exists>h'. createFiberFromElement exampleEnv elementHeap 0 (JNum 1) = Inr (10, h') \<and>
       getProp h' 10 ''tag'' = ClassComponent exampleEnv \<and>
       getProp h' 10 ''type'' = JObj 5 \<and>
       getProp h' 10 ''key'' = JNull \<and>
       getProp h' 10 ''pendingProps'' = JObj 9 \<and>
       getProp h' 10 ''pendingWorkPriority'' = JNum 1)) \<and>
   (1 < nextAddr elementHeap \<and>
    typeof elementHeap (getProp elementHeap 1 ''type'') = ''function'' \<and>
    (\<exists>h'. createFiberFromElement exampleEnv elementHeap 1 (JNum 1) = Inr (10, h') \<and>
       getProp h' 10 ''tag'' = IndeterminateComponent exampleEnv \<and>
       getProp h' 10 ''type'' = JObj 7 \<and>
       getProp h' 10 ''key'' = JNull \<and>
       getProp h' 10 ''pendingProps'' = JObj 9 \<and>
       getProp h' 10 ''pendingWorkPriority'' = JNum 1)) \<and>
   (2 < nextAddr elementHeap \<and>
    typeof elementHeap (getProp elementHeap 2 ''type'') = ''string'' \<and>
    (\<exists>h'. createFiberFromElement exampleEnv elementHeap 2 (JNum 1) = Inr (10, h') \<and>
       getProp h' 10 ''tag'' = HostComponent exampleEnv \<and>
       getProp h' 10 ''type'' = JStr ''div'' \<and>
       getProp h' 10 ''key'' = JStr ''a'' \<and>
       getProp h' 10 ''pendingProps'' = JObj 9 \<and>
       getProp h' 10 ''pendingWorkPriority'' = JNum 1))"
proof -
  have a0: "0 < nextAddr elementHeap" and a1: "1 < nextAddr elementHeap"
    and a2: "2 < nextAddr elementHeap"
    by (simp_all add: elementHeap_reads)
  have t0: "typeof elementHeap (getProp elementHeap 0 ''type'') = ''function''"
    and t1: "typeof elementHeap (getProp elementHeap 1 ''type'') = ''function''"
    and t2: "typeof elementHeap (getProp elementHeap 2 ''type'') = ''string''"
    by (simp_all add: elementHeap_reads)
  have "\<exists>h'. createFiberFromElement exampleEnv elementHeap 0 (JNum 1) = Inr (10, h') \<and>
       getProp h' 10 ''tag'' = ClassComponent exampleEnv \<and>
       getProp h' 10 ''type'' = JObj 5 \<and>
       getProp h' 10 ''key'' = JNull \<and>
       getProp h' 10 ''pendingProps'' = JObj 9 \<and>
       getProp h' 10 ''pendingWorkPriority'' = JNum 1"
    using createFiberFromElement_resolves_kind
            [where element = 0 and h = elementHeap and e = exampleEnv and p = "JNum 1"] a0 t0
    by (simp add: elementHeap_reads getValueProp_def)
  moreover
  have "\<exists>h'. createFiberFromElement exampleEnv elementHeap 1 (JNum 1) = Inr (10, h') \<and>
       getProp h' 10 ''tag'' = IndeterminateComponent exampleEnv \<and>
       getProp h' 10 ''type'' = JObj 7 \<and>
       getProp h' 10 ''key'' = JNull \<and>
       getProp h' 10 ''pendingProps'' = JObj 9 \<and>
       getProp h' 10 ''pendingWorkPriority'' = JNum 1"
    using createFiberFromElement_resolves_kind
            [where element = 1 and h = elementHeap and e = exampleEnv and p = "JNum 1"] a1 t1
    by (simp add: elementHeap_reads getValueProp_def)
  moreover
  have "\<exists>h'. createFiberFromElement exampleEnv elementHeap 2 (JNum 1) = Inr (10, h') \<and>
       getProp h' 10 ''tag'' = HostComponent exampleEnv \<and>
       getProp h' 10 ''type'' = JStr ''div'' \<and>
       getProp h' 10 ''key'' = JStr ''a'' \<and>
       getProp h' 10 ''pendingProps'' = JObj 9 \<and>
       getProp h' 10 ''pendingWorkPriority'' = JNum 1"
    using createFiberFromElement_resolves_kind
            [where element = 2 and h = elementHeap and e = exampleEnv and p = "JNum 1"] a2 t2
    by (simp add: elementHeap_reads)
  ultimately show ?thesis using a0 a1 a2 t0 t1 t2 by blast
qed

text \<open>
  C6, as amended. When the \<open>typeof\<close> of the element's type is neither \<open>function\<close> nor
  \<open>string\<close>, and the type is not a non-null object, \<open>createFiberFromElement\<close> throws
  \<open>Error('Unknown component type: ' + typeof type)\<close>: no fiber is returned, and the store
  at the throw is the store of the call.
\<close>

theorem createFiberFromElement_unknown_type:
  assumes "typeof h (getProp h element ''type'') \<noteq> ''function''"
    and "typeof h (getProp h element ''type'') \<noteq> ''string''"
    and "\<not> (typeof h (getProp h element ''type'') = ''object'' \<and>
            getProp h element ''type'' \<noteq> JNull)"
  shows "createFiberFromElement e h element p =
           Inl (Error (''Unknown component type: '' @ typeof h (getProp h element ''type'')), h)"
  using assms
  by (simp add: createFiberFromElement_def createFiberFromElementType_unknown)

theorem createFiberFromElement_unknown_type_witness:
  "typeof elementHeap (getProp elementHeap 3 ''type'') = ''number'' \<and>
   createFiberFromElement exampleEnv elementHeap 3 (JNum 1) =
     Inl (Error ''Unknown component type: number'', elementHeap)"
  using createFiberFromElement_unknown_type
          [where element = 3 and h = elementHeap and e = exampleEnv and p = "JNum 1"]
  by (simp add: elementHeap_reads)

text \<open>
  C6 as stated, with "an object that is already a node" as the third accepted form, fails:
  the source tests \<open>typeof type === 'object' && type !== null\<close> and takes every such value
  to be a fiber. The type of element 4 of \<open>elementHeap\<close> is the empty object 8, which has
  none of the fields of a fiber; no error is thrown, and object 8 is returned with
  pendingProps and pendingWorkPriority written to it.
\<close>

theorem createFiberFromElement_accepts_non_node:
  "typeof elementHeap (getProp elementHeap 4 ''type'') \<noteq> ''function'' \<and>
   typeof elementHeap (getProp elementHeap 4 ''type'') \<noteq> ''string'' \<and>
   \<not> isFiber elementHeap (getProp elementHeap 4 ''type'') \<and>
   createFiberFromElement exampleEnv elementHeap 4 (JNum 1) =
     Inr (8, setProp (setProp elementHeap 8 ''pendingProps'' (JObj 9))
               8 ''pendingWorkPriority'' (JNum 1))"
  using createFiberFromElement_object
          [where element = 4 and h = elementHeap and a = 8 and e = exampleEnv and p = "JNum 1"]
  by (simp add: elementHeap_reads isFiber_def fiberFields_def)

text \<open>
  C10, as amended. When the element's type is a non-null value whose \<open>typeof\<close> is
  \<open>object\<close>, \<open>createFiberFromElement\<close> allocates nothing and inspects no property of that
  object. If the object accepts the assignment of pendingProps and of pendingWorkPriority,
  the call returns that object itself, and the store afterwards is the store before with
  the two writes to it: pendingProps is the element's props and pendingWorkPriority the
  priority passed. If it refuses the first assignment, the call throws a TypeError and
  the store is unchanged; if it refuses the second, the call throws a TypeError after
  pendingProps was written.
\<close>

theorem createFiberFromElement_object_passthrough:
  assumes "typeof h (getProp h element ''type'') = ''object''"
    and "getProp h element ''type'' \<noteq> JNull"
  shows "\<exists>a. getProp h element ''type'' = JObj a \<and>
           createFiberFromElement e h element p =
             (if canAssign (objs h a) ''pendingProps'' then
                if canAssign (objs h a) ''pendingWorkPriority'' then
                  Inr (a, setProp (setProp h a ''pendingProps'' (getProp h element ''props''))
                            a ''pendingWorkPriority'' p)
                else Inl (TypeError, setProp h a ''pendingProps'' (getProp h element ''props''))
              else Inl (TypeError, h))"
proof -
  from assms obtain a where "getProp h element ''type'' = JObj a" and "\<not> callable (objs h a)"
    using typeof_object [of h "getProp h element ''type''"] by blast
  then show ?thesis
    by (simp add: createFiberFromElement_object)
qed

theorem createFiberFromElement_object_passthrough_witness:
  "typeof (setProp pairedHeap 4 ''type'' (JObj 0))
     (getProp (setProp pairedHeap 4 ''type'' (JObj 0)) 4 ''type'') = ''object'' \<and>
   getProp (setProp pairedHeap 4 ''type'' (JObj 0)) 4 ''type'' \<noteq> JNull \<and>
   createFiberFromElement exampleEnv (setProp pairedHeap 4 ''type'' (JObj 0)) 4 (JNum 1) =
     Inr (0, setProp (setProp (setProp pairedHeap 4 ''type'' (JObj 0))
                        0 ''pendingProps'' JUndefined)
               0 ''pendingWorkPriority'' (JNum 1))"
proof -
  let ?h = "setProp pairedHeap 4 ''type'' (JObj 0)"
  have t: "getProp ?h 4 ''type'' = JObj 0" and p: "getProp ?h 4 ''props'' = JUndefined"
    by (simp_all add: getProp_setProp) (simp add: pairedHeap_def getProp_def plainObj_def)
  have ty: "typeof ?h (getProp ?h 4 ''type'') = ''object''"
    by (simp add: t callable_setProp pairedHeap_reads)
  have nn: "getProp ?h 4 ''type'' \<noteq> JNull"
    by (simp add: t)
  have w: "canAssign (objs ?h 0) ''pendingProps''" "canAssign (objs ?h 0) ''pendingWorkPriority''"
    using pairedHeap_reads(9)
    by (simp_all add: canAssign_setProp refreshFields_def)
  from createFiberFromElement_object_passthrough [OF ty nn, of exampleEnv "JNum 1"]
  show ?thesis using ty nn by (simp add: t p w)
qed

text \<open>
  C10 as stated, for every non-null object, fails. The type of element 0 of \<open>frozenHeap\<close>
  is the frozen object 1: the assignment of pendingProps is refused, nothing is returned
  and the store is unchanged. The type of element 3 is the object 4, which is not
  extensible and has no pendingWorkPriority: pendingProps is written, and the second
  assignment throws.
\<close>

theorem createFiberFromElement_frozen_type:
  "typeof frozenHeap (getProp frozenHeap 0 ''type'') = ''object'' \<and>
   getProp frozenHeap 0 ''type'' \<noteq> JNull \<and>
   createFiberFromElement exampleEnv frozenHeap 0 (JNum 1) = Inl (TypeError, frozenHeap) \<and>
   typeof frozenHeap (getProp frozenHeap 3 ''type'') = ''object'' \<and>
   getProp frozenHeap 3 ''type'' \<noteq> JNull \<and>
   createFiberFromElement exampleEnv frozenHeap 3 (JNum 1) =
     Inl (TypeError, setProp frozenHeap 4 ''pendingProps'' (JObj 2))"
  using createFiberFromElement_object
          [where element = 0 and h = frozenHeap and a = "Suc 0" and e = exampleEnv
             and p = "JNum 1"]
        createFiberFromElement_object
          [where element = 3 and h = frozenHeap and a = 4 and e = exampleEnv and p = "JNum 1"]
  by (simp add: frozenHeap_reads)

text \<open>
  C8. \<open>createFiberFromYield\<close> returns a new fiber whose tag is YieldComponent, whose key is
  the key of the yield, whose pendingProps is a new object without properties, and whose
  pendingWorkPriority is NoWork; the result does not depend on the priority passed.
\<close>

theorem createFiberFromYield_no_priority:
  "(case createFiberFromYield e h yieldNode p of
      (fiber, h') \<Rightarrow>
        fiber = nextAddr h \<and>
        getProp h' fiber ''tag'' = YieldComponent e \<and>
        getProp h' fiber ''key'' = getProp h yieldNode ''key'' \<and>
        getProp h' fiber ''pendingProps'' = JObj (Suc fiber) \<and>
        objs h' (Suc fiber) = plainObj Map.empty \<and>
        nextAddr h' = Suc (Suc fiber) \<and>
        getProp h' fiber ''pendingWorkPriority'' = NoWork e) \<and>
   createFiberFromYield e h yieldNode p = createFiberFromYield e h yieldNode q"
  by (simp add: createFiberFromYield_def createFiber_def newObject_def split_def Let_def
        getProp_def setProp_def plainObj_def)

end
